theory Spec2Isabelle
  imports Complex_Main "HOL-Library.Word" "HOL-Library.Sublist"
begin

section \<open>JavaScript values used by the dashboard and the report\<close>

text \<open>
  A JavaScript string is a sequence of 16-bit code units. The report template holds the
  bullet U+2022 and the log line an emoji (a surrogate pair), so the code units are kept
  as 16-bit words; \<open>lit\<close> embeds an ASCII literal.
\<close>

type_synonym jschar = "16 word"
type_synonym jsstring = "jschar list"

definition lit :: "string \<Rightarrow> jsstring" where
  "lit s = map (\<lambda>c. of_nat (of_char c)) s"

text \<open>
  \<open>String.prototype.toLowerCase\<close>, on the code units A to Z. Other code units are left
  as they are: the model is exact on ASCII text, which is what the four keywords and the
  status labels of the data are made of.
\<close>

definition lowerUnit :: "jschar \<Rightarrow> jschar" where
  "lowerUnit c = (if 0x41 \<le> c \<and> c \<le> 0x5A then c + 0x20 else c)"

definition toLowerCase :: "jsstring \<Rightarrow> jsstring" where
  "toLowerCase s = map lowerUnit s"

text \<open>\<open>String.prototype.includes\<close>: the needle occurs at some position.\<close>

fun includes_str :: "jsstring \<Rightarrow> jsstring \<Rightarrow> bool" where
  "includes_str [] n = (n = [])"
| "includes_str (c # cs) n = (prefix n (c # cs) \<or> includes_str cs n)"

text \<open>
  Numbers: the three non-finite values of a JavaScript number, and the finite ones as
  exact rationals. Binary64 rounding, overflow and the sign of zero are not modelled:
  the operations below agree with the machine's wherever the operands and the exact
  result are binary64 numbers, and differ from it where the machine rounds. Every
  concrete number below (halves, quarters, small integers) is a binary64 value on
  which the machine operations are exact, and a statement about sums or products of
  arbitrary inputs is either restricted to inputs on which the machine is exact
  (\<open>exactBatch\<close>) or comes with a lemma about rounded results.
\<close>

datatype jsnum = NaN | PosInf | NegInf | Fin rat

fun num_add :: "jsnum \<Rightarrow> jsnum \<Rightarrow> jsnum" where
  "num_add NaN _ = NaN"
| "num_add _ NaN = NaN"
| "num_add PosInf NegInf = NaN"
| "num_add NegInf PosInf = NaN"
| "num_add PosInf _ = PosInf"
| "num_add _ PosInf = PosInf"
| "num_add NegInf _ = NegInf"
| "num_add _ NegInf = NegInf"
| "num_add (Fin a) (Fin b) = Fin (a + b)"

fun num_mul :: "jsnum \<Rightarrow> jsnum \<Rightarrow> jsnum" where
  "num_mul (Fin a) (Fin b) = Fin (a * b)"
| "num_mul NaN _ = NaN"
| "num_mul _ NaN = NaN"
| "num_mul (Fin a) PosInf = (if a = 0 then NaN else if 0 < a then PosInf else NegInf)"
| "num_mul (Fin a) NegInf = (if a = 0 then NaN else if 0 < a then NegInf else PosInf)"
| "num_mul PosInf (Fin b) = (if b = 0 then NaN else if 0 < b then PosInf else NegInf)"
| "num_mul NegInf (Fin b) = (if b = 0 then NaN else if 0 < b then NegInf else PosInf)"
| "num_mul PosInf PosInf = PosInf"
| "num_mul NegInf NegInf = PosInf"
| "num_mul PosInf NegInf = NegInf"
| "num_mul NegInf PosInf = NegInf"

text \<open>
  Division never raises in JavaScript: a zero divisor gives an infinity or NaN. The
  quotient is exact and zero has no sign here; the machine rounds the quotient and
  divides by \<open>-0\<close> to the opposite infinity.
\<close>

fun num_div :: "jsnum \<Rightarrow> jsnum \<Rightarrow> jsnum" where
  "num_div (Fin a) (Fin b) =
     (if b \<noteq> 0 then Fin (a / b)
      else if a = 0 then NaN else if 0 < a then PosInf else NegInf)"
| "num_div NaN _ = NaN"
| "num_div _ NaN = NaN"
| "num_div (Fin a) PosInf = Fin 0"
| "num_div (Fin a) NegInf = Fin 0"
| "num_div PosInf (Fin b) = (if 0 \<le> b then PosInf else NegInf)"
| "num_div NegInf (Fin b) = (if 0 \<le> b then NegInf else PosInf)"
| "num_div PosInf PosInf = NaN"
| "num_div PosInf NegInf = NaN"
| "num_div NegInf PosInf = NaN"
| "num_div NegInf NegInf = NaN"

fun math_floor :: "jsnum \<Rightarrow> jsnum" where
  "math_floor (Fin q) = Fin (of_int \<lfloor>q\<rfloor>)"
| "math_floor n = n"

text \<open>Decimal digits of a natural number, most significant first.\<close>

fun digitsOf :: "nat \<Rightarrow> jsstring" where
  "digitsOf n =
     (if n < 10 then [of_nat (48 + n)]
      else digitsOf (n div 10) @ [of_nat (48 + n mod 10)])"

declare digitsOf.simps [simp del]

fun fracDigits :: "nat \<Rightarrow> rat \<Rightarrow> jsstring" where
  "fracDigits 0 r = []"
| "fracDigits (Suc k) r =
     (if r = 0 then []
      else of_nat (48 + nat \<lfloor>r * 10\<rfloor>) # fracDigits k (r * 10 - of_int \<lfloor>r * 10\<rfloor>))"

text \<open>
  \<open>Number::toString\<close>. Integers print in decimal, as JavaScript prints them below
  \<open>10^21\<close>; a fraction prints its decimal expansion, cut after 20 digits, where
  JavaScript prints the shortest digits that read back as the same binary64 number.
  The two agree on integers and on short terminating fractions such as 4.5.
\<close>

fun numberToString :: "jsnum \<Rightarrow> jsstring" where
  "numberToString NaN = lit ''NaN''"
| "numberToString PosInf = lit ''Infinity''"
| "numberToString NegInf = lit ''-Infinity''"
| "numberToString (Fin q) =
     (if q < 0 then lit ''-'' else []) @ digitsOf (nat \<lfloor>\<bar>q\<bar>\<rfloor>) @
     (if of_int \<lfloor>\<bar>q\<bar>\<rfloor> = \<bar>q\<bar> then []
      else lit ''.'' @ fracDigits 20 (\<bar>q\<bar> - of_int \<lfloor>\<bar>q\<bar>\<rfloor>))"

text \<open>
  \<open>Number.prototype.toFixed(1)\<close>: the sign is taken off first, the magnitude is rounded
  to the nearest tenth with ties upwards, and a non-finite number prints its name.
  (From \<open>10^21\<close> on JavaScript switches to exponent notation; no number here is that
  large.) The exact rational is rounded; the machine rounds the binary64 value, which
  can give the neighbouring tenth where the exact value is a tie that binary64 does
  not hold.
\<close>

fun toFixed1 :: "jsnum \<Rightarrow> jsstring" where
  "toFixed1 NaN = lit ''NaN''"
| "toFixed1 PosInf = lit ''Infinity''"
| "toFixed1 NegInf = lit ''-Infinity''"
| "toFixed1 (Fin q) =
     (let n = nat \<lfloor>\<bar>q\<bar> * 10 + 1 / 2\<rfloor>
      in (if q < 0 then lit ''-'' else []) @ digitsOf (n div 10) @ lit ''.'' @
         digitsOf (n mod 10))"

text \<open>
  The values a GeoJSON property can hold after \<open>JSON.parse\<close> (scalars; a missing
  property reads as \<open>undefined\<close>).
\<close>

datatype jsval = JUndefined | JNull | JBool bool | JNum jsnum | JStr jsstring

datatype error = TypeError

fun truthy :: "jsval \<Rightarrow> bool" where
  "truthy JUndefined = False"
| "truthy JNull = False"
| "truthy (JBool b) = b"
| "truthy (JNum n) = (n \<noteq> NaN \<and> n \<noteq> Fin 0)"
| "truthy (JStr s) = (s \<noteq> [])"

text \<open>\<open>a || b\<close>\<close>

definition js_or :: "jsval \<Rightarrow> jsval \<Rightarrow> jsval" where
  "js_or a b = (if truthy a then a else b)"

fun toNumber :: "jsval \<Rightarrow> jsnum" where
  "toNumber JUndefined = NaN"
| "toNumber JNull = Fin 0"
| "toNumber (JBool b) = (if b then Fin 1 else Fin 0)"
| "toNumber (JNum n) = n"
| "toNumber (JStr s) = NaN"

fun toString :: "jsval \<Rightarrow> jsstring" where
  "toString JUndefined = lit ''undefined''"
| "toString JNull = lit ''null''"
| "toString (JBool b) = (if b then lit ''true'' else lit ''false'')"
| "toString (JNum n) = numberToString n"
| "toString (JStr s) = s"

text \<open>
  \<open>a + b\<close> (and so \<open>a += b\<close>): string concatenation as soon as one operand is a string,
  numeric addition otherwise. \<open>toNumber\<close> is applied to non-strings only, so its value on
  a string (where JavaScript would parse the text) is never used.
\<close>

fun js_add :: "jsval \<Rightarrow> jsval \<Rightarrow> jsval" where
  "js_add (JStr s) b = JStr (s @ toString b)"
| "js_add a (JStr t) = JStr (toString a @ t)"
| "js_add a b = JNum (num_add (toNumber a) (toNumber b))"

text \<open>
  Method calls: \<open>toLowerCase\<close> exists on strings only and \<open>toFixed\<close> on numbers only;
  calling either on another value is a \<open>TypeError\<close>.
\<close>

fun call_toLowerCase :: "jsval \<Rightarrow> error + jsstring" where
  "call_toLowerCase (JStr s) = Inr (toLowerCase s)"
| "call_toLowerCase _ = Inl TypeError"

fun call_toFixed1 :: "jsval \<Rightarrow> error + jsstring" where
  "call_toFixed1 (JNum n) = Inr (toFixed1 n)"
| "call_toFixed1 _ = Inl TypeError"

section \<open>Dashboard component (js/components/dashboard.js)\<close>

text \<open>
  A GeoJSON feature. \<open>properties\<close> may be \<open>null\<close> in GeoJSON (\<open>None\<close> here); reading a
  property of \<open>null\<close> is a \<open>TypeError\<close>.
\<close>

record props =
  status :: jsval
  claimant_families :: jsval
  area_hectares :: jsval

record feature =
  properties :: "props option"

record counts =
  approved :: nat
  pending :: nat
  review :: nat
  rejected :: nat

text \<open>The local variables of \<open>updateFromData\<close> that the loop updates.\<close>

record tally =
  counts :: counts
  totalFamilies :: jsval
  totalArea :: jsval

text \<open>The body of the \<open>forEach\<close> callback, lines 39 to 50.\<close>

definition callback :: "tally \<Rightarrow> feature \<Rightarrow> error + tally" where
  "callback t f =
     (case properties f of
        None \<Rightarrow> Inl TypeError
      | Some p \<Rightarrow>
          (case call_toLowerCase (js_or (status p) (JStr [])) of
             Inl e \<Rightarrow> Inl e
           | Inr st \<Rightarrow>
               (let families = js_or (claimant_families p) (JNum (Fin 0));
                    area = js_or (area_hectares p) (JNum (Fin 0));
                    t1 = t\<lparr>totalFamilies := js_add (totalFamilies t) families,
                           totalArea := js_add (totalArea t) area\<rparr>;
                    c = counts t1
                in Inr
                  (if includes_str st (lit ''approved'')
                   then t1\<lparr>counts := c\<lparr>counts.approved := counts.approved c + 1\<rparr>\<rparr>
                   else if includes_str st (lit ''pending'')
                   then t1\<lparr>counts := c\<lparr>counts.pending := counts.pending c + 1\<rparr>\<rparr>
                   else if includes_str st (lit ''review'')
                   then t1\<lparr>counts := c\<lparr>counts.review := counts.review c + 1\<rparr>\<rparr>
                   else if includes_str st (lit ''reject'')
                   then t1\<lparr>counts := c\<lparr>counts.rejected := counts.rejected c + 1\<rparr>\<rparr>
                   else t1))))"

text \<open>\<open>features.forEach\<close>: the callback on each feature in order; an exception ends the loop.\<close>

fun forEach :: "feature list \<Rightarrow> tally \<Rightarrow> error + tally" where
  "forEach [] t = Inr t"
| "forEach (f # fs) t =
     (case callback t f of Inl e \<Rightarrow> Inl e | Inr t' \<Rightarrow> forEach fs t')"

definition initial :: tally where
  "initial =
     \<lparr>counts = \<lparr>counts.approved = 0, pending = 0, review = 0, rejected = 0\<rparr>,
      totalFamilies = JNum (Fin 0), totalArea = JNum (Fin 0)\<rparr>"

text \<open>Lines 34 to 51 of \<open>updateFromData\<close>: the statistics of a batch.\<close>

definition aggregate :: "feature list \<Rightarrow> error + tally" where
  "aggregate features = forEach features initial"

text \<open>
  The page as the dashboard sees it: the text of each element it looked up, \<open>None\<close>
  where \<open>getElementById\<close> or \<open>querySelector\<close> found nothing, and the console.
  \<open>coverage\<close> is the \<open>innerHTML\<close> of its element, kept as the text that was stored (a
  browser serialises the markup again on reading).
\<close>

record dom =
  approved_count :: "jsstring option"
  pending_count :: "jsstring option"
  review_count :: "jsstring option"
  rejected_count :: "jsstring option"
  last_update :: "jsstring option"
  coverage :: "jsstring option"
  console :: "jsstring list"

definition updateCountElements :: "counts \<Rightarrow> dom \<Rightarrow> dom" where
  "updateCountElements c d =
     d\<lparr>approved_count := map_option (\<lambda>_. digitsOf (counts.approved c)) (approved_count d),
       pending_count := map_option (\<lambda>_. digitsOf (counts.pending c)) (pending_count d),
       review_count := map_option (\<lambda>_. digitsOf (counts.review c)) (review_count d),
       rejected_count := map_option (\<lambda>_. digitsOf (counts.rejected c)) (rejected_count d)\<rparr>"

text \<open>\<open>time\<close> is what \<open>new Date().toLocaleTimeString()\<close> returns at the call.\<close>

definition updateLastUpdate :: "jsstring \<Rightarrow> dom \<Rightarrow> dom" where
  "updateLastUpdate time d =
     d\<lparr>last_update := map_option (\<lambda>_. lit ''Updated '' @ time) (last_update d)\<rparr>"

text \<open>
  The regular expression \<open>/Coverage: \d+ States.*$/\<close>: \<open>matchesHere s\<close> says that it
  matches at the start of \<open>s\<close>; the match then runs to the end of the text, which must
  hold no line terminator after \<open>States\<close>. \<open>replaceMatch\<close> replaces the leftmost match.
\<close>

definition isDigit :: "jschar \<Rightarrow> bool" where
  "isDigit c = (0x30 \<le> c \<and> c \<le> 0x39)"

definition lineTerminator :: "jschar \<Rightarrow> bool" where
  "lineTerminator c = (c = 0x0A \<or> c = 0x0D \<or> c = 0x2028 \<or> c = 0x2029)"

definition matchesHere :: "jsstring \<Rightarrow> bool" where
  "matchesHere s =
     (prefix (lit ''Coverage: '') s \<and>
      (let r = drop 10 s; r' = dropWhile isDigit r
       in takeWhile isDigit r \<noteq> [] \<and> prefix (lit '' States'') r' \<and>
          list_all (\<lambda>c. \<not> lineTerminator c) (drop 7 r')))"

fun replaceMatch :: "jsstring \<Rightarrow> jsstring \<Rightarrow> jsstring" where
  "replaceMatch [] rep = []"
| "replaceMatch (c # cs) rep =
     (if matchesHere (c # cs) then rep else c # replaceMatch cs rep)"

definition updateCoverageInfo :: "nat \<Rightarrow> dom \<Rightarrow> dom" where
  "updateCoverageInfo claimCount d =
     (case coverage d of
        None \<Rightarrow> d
      | Some currentText \<Rightarrow>
          if includes_str currentText (lit ''Coverage:'')
          then d\<lparr>coverage := Some (replaceMatch currentText
                 (lit ''Coverage: 4 States | '' @ digitsOf claimCount @ lit '' Active Claims''))\<rparr>
          else d)"

text \<open>
  \<open>updateFromData\<close>. The counters are written before the log line is built, and the log
  line calls \<open>totalArea.toFixed(1)\<close>: when that raises, the page has already changed.
  The result is the page afterwards and whether the call returned or threw.
\<close>

definition updateFromData :: "jsstring \<Rightarrow> dom \<Rightarrow> feature list \<Rightarrow> dom \<times> (error + unit)" where
  "updateFromData time d features =
     (case aggregate features of
        Inl e \<Rightarrow> (d, Inl e)
      | Inr t \<Rightarrow>
          (let d1 = updateCountElements (counts t) d;
               d2 = updateLastUpdate time d1;
               d3 = updateCoverageInfo (length features) d2
           in case call_toFixed1 (totalArea t) of
                Inl e \<Rightarrow> (d3, Inl e)
              | Inr a \<Rightarrow>
                  (d3\<lparr>console := console d3 @
                       [[0xD83D, 0xDCCA] @ lit '' Dashboard updated: '' @
                        digitsOf (length features) @ lit '' claims, '' @
                        toString (totalFamilies t) @ lit '' families, '' @ a @
                        lit '' hectares'']\<rparr>,
                   Inr ())))"

definition defaultCounts :: counts where
  "defaultCounts = \<lparr>counts.approved = 234, pending = 156, review = 43, rejected = 12\<rparr>"

definition resetToDefaults :: "jsstring \<Rightarrow> dom \<Rightarrow> dom" where
  "resetToDefaults time d =
     (let d1 = updateLastUpdate time (updateCountElements defaultCounts d)
      in d1\<lparr>console := console d1 @
            [[0xD83D, 0xDCCA] @ lit '' Dashboard reset to default values'']\<rparr>)"

section \<open>Application module (js/app.js)\<close>

record app =
  loadedData :: "feature list"
  dashboard :: dom

text \<open>
  \<open>loadMultiStateData\<close>. \<open>loaded\<close> is the batch that the map manager's \<open>loadStateData\<close>
  resolves to; the map manager is not part of these sources.
\<close>

definition loadMultiStateData :: "jsstring \<Rightarrow> feature list \<Rightarrow> app \<Rightarrow> app \<times> (error + unit)" where
  "loadMultiStateData time loaded a =
     (let a1 = a\<lparr>loadedData := loaded\<rparr>
      in if length (loadedData a1) > 0
         then (case updateFromData time (dashboard a1) (loadedData a1) of
                 (d, r) \<Rightarrow> (a1\<lparr>dashboard := d\<rparr>, r))
         else (a1, Inr ()))"

text \<open>
  \<open>parseInt\<close> with no radix: leading white space is skipped, a sign is read, a \<open>0x\<close>
  prefix selects radix 16, and the longest run of digits is the value; no digit at all
  gives \<open>NaN\<close>. \<open>digitValue\<close> is 36 on a code unit that is no digit in any radix.
  The value is kept exact, where the machine rounds an integer above \<open>2^53\<close>, and
  \<open>-0\<close> reads as 0.
\<close>

definition isWhiteSpace :: "jschar \<Rightarrow> bool" where
  "isWhiteSpace c =
     (c \<in> set [0x09, 0x0A, 0x0B, 0x0C, 0x0D, 0x20, 0xA0, 0x1680, 0x2028, 0x2029, 0x202F,
                0x205F, 0x3000, 0xFEFF] \<or> (0x2000 \<le> c \<and> c \<le> 0x200A))"

definition digitValue :: "jschar \<Rightarrow> nat" where
  "digitValue c =
     (if 0x30 \<le> c \<and> c \<le> 0x39 then unat c - 48
      else if 0x61 \<le> c \<and> c \<le> 0x7A then unat c - 87
      else if 0x41 \<le> c \<and> c \<le> 0x5A then unat c - 55
      else 36)"

definition parseInt :: "jsstring \<Rightarrow> jsnum" where
  "parseInt inputString =
     (let s = dropWhile isWhiteSpace inputString;
          neg = prefix (lit ''-'') s;
          s1 = (if prefix (lit ''-'') s \<or> prefix (lit ''+'') s then drop 1 s else s);
          hex = (prefix (lit ''0x'') s1 \<or> prefix (lit ''0X'') s1);
          R = (if hex then 16 else 10);
          s2 = (if hex then drop 2 s1 else s1);
          z = takeWhile (\<lambda>c. digitValue c < R) s2
      in if z = [] then NaN
         else Fin (of_int ((if neg then - 1 else 1) *
                int (foldl (\<lambda>a c. a * R + digitValue c) 0 z))))"

record reportData =
  totalClaims :: jsnum
  approved :: jsnum
  pending :: jsnum
  review :: jsnum
  rejected :: jsnum
  deforestationAlerts :: jsnum
  highRiskAreas :: jsnum
  ndviViolations :: jsnum

text \<open>
  \<open>counts[i]?.textContent || '0'\<close>, where \<open>els\<close> holds the text of the elements that
  \<open>querySelectorAll('.stat-number')\<close> returns.
\<close>

definition counterText :: "jsstring list \<Rightarrow> nat \<Rightarrow> jsstring" where
  "counterText els i = (if i < length els \<and> els ! i \<noteq> [] then els ! i else lit ''0'')"

text \<open>
  \<open>generateReportData\<close>. \<open>r1\<close>, \<open>r2\<close>, \<open>r3\<close> are the values of the three calls of
  \<open>Math.random()\<close>, in the order of the object literal.
\<close>

definition generateReportData :: "jsstring list \<Rightarrow> rat \<Rightarrow> rat \<Rightarrow> rat \<Rightarrow> reportData" where
  "generateReportData els r1 r2 r3 =
     \<lparr>totalClaims =
        num_add
          (num_add
            (num_add (parseInt (counterText els 0)) (parseInt (counterText els 1)))
            (parseInt (counterText els 2)))
          (parseInt (counterText els 3)),
      approved = parseInt (counterText els 0),
      pending = parseInt (counterText els 1),
      review = parseInt (counterText els 2),
      rejected = parseInt (counterText els 3),
      deforestationAlerts = num_add (math_floor (num_mul (Fin r1) (Fin 8))) (Fin 3),
      highRiskAreas = num_add (math_floor (num_mul (Fin r2) (Fin 5))) (Fin 2),
      ndviViolations = num_add (math_floor (num_mul (Fin r3) (Fin 12))) (Fin 5)\<rparr>"

definition nl :: jsstring where
  "nl = [0x0A]"

definition bullet :: jsstring where
  "bullet = [0x2022]"

text \<open>
  \<open>createReportContent\<close>: the template literal, piece by piece. \<open>now\<close> is what
  \<open>new Date().toLocaleString()\<close> returns at the call.
\<close>

definition createReportContent :: "jsstring \<Rightarrow> reportData \<Rightarrow> jsstring" where
  "createReportContent now rd = concat
     [nl,
      lit ''FRA ATLAS DECISION SUPPORT SYSTEM - COMPREHENSIVE REPORT'', nl,
      lit ''Generated on: '', now, nl,
      nl,
      lit ''=== EXECUTIVE SUMMARY ==='', nl,
      lit ''Total FRA Claims Monitored: '', numberToString (totalClaims rd), nl,
      lit ''States Covered: Odisha, Madhya Pradesh, Tripura, Telangana'', nl,
      lit ''Monitoring Period: January 2025 - September 2025'', nl,
      nl,
      lit ''=== CLAIM STATUS DISTRIBUTION ==='', nl,
      bullet, lit '' Approved Claims: '', numberToString (reportData.approved rd), nl,
      bullet, lit '' Pending Review: '', numberToString (reportData.pending rd), lit ''  '', nl,
      bullet, lit '' Under Review: '', numberToString (reportData.review rd), nl,
      bullet, lit '' Rejected Claims: '', numberToString (reportData.rejected rd), nl,
      nl,
      lit ''=== ENVIRONMENTAL ALERTS ==='', nl,
      bullet, lit '' Deforestation Detected: '', numberToString (deforestationAlerts rd),
        lit '' locations'', nl,
      bullet, lit '' High-risk Areas: '', numberToString (highRiskAreas rd), nl,
      bullet, lit '' NDVI Threshold Violations: '', numberToString (ndviViolations rd), nl,
      nl,
      lit ''=== COMMUNITY IMPACT ==='', nl,
      bullet, lit '' Total Families Protected: 8,542'', nl,
      bullet, lit '' Forest Area Secured: 24,156 hectares'', nl,
      bullet, lit '' Average Claim Size: '',
        toFixed1 (num_div (Fin 24156) (totalClaims rd)), lit '' hectares'', nl,
      nl,
      lit ''=== TECHNICAL SPECIFICATIONS ==='', nl,
      bullet, lit '' Satellite Data Source: Sentinel-2 (10m resolution)'', nl,
      bullet, lit '' NDVI Calculation: Band 8 (NIR) and Band 4 (Red)'', nl,
      bullet, lit '' Deforestation Threshold: NDVI < 0.3'', nl,
      bullet, lit '' Update Frequency: Bi-weekly'', nl,
      nl,
      lit ''=== RECOMMENDATIONS ==='', nl,
      lit ''1. Prioritize review of '', numberToString (reportData.pending rd),
        lit '' pending claims'', nl,
      lit ''2. Investigate '', numberToString (deforestationAlerts rd),
        lit '' deforestation alerts'', nl,
      lit ''3. Deploy ground verification teams to high-risk areas'', nl,
      lit ''4. Strengthen community-based monitoring programs'', nl,
      nl,
      lit ''Report generated by FRA Atlas DSS v1.0'', nl,
      lit ''For SIH 2025 - Problem Statement SIH12508'', nl,
      lit ''Team: Green Guardians'', nl,
      lit ''        '']"

text \<open>
  The local \<open>reportContent\<close> of \<open>exportReport\<close> (lines 129 and 130), the text that is
  handed to the download: the report data generated from the page, rendered at once.
\<close>

definition reportContent :: "jsstring list \<Rightarrow> rat \<Rightarrow> rat \<Rightarrow> rat \<Rightarrow> jsstring \<Rightarrow> jsstring" where
  "reportContent els r1 r2 r3 now = createReportContent now (generateReportData els r1 r2 r3)"

section \<open>Notions of the specification\<close>

text \<open>
  The specification names four visible categories and describes classification as an
  ordered list of (keyword, category) pairs, evaluated in sequence on the lower-cased
  label, the first match deciding. \<open>classify_spec\<close> follows those words; the code's
  \<open>if\<close>/\<open>else if\<close> chain in \<open>callback\<close> is compared with it below.
\<close>

datatype bucket = Approved | Pending | UnderReview | Rejected

definition priority :: "(string \<times> bucket) list" where
  "priority =
     [(''approved'', Approved), (''pending'', Pending), (''review'', UnderReview),
      (''reject'', Rejected)]"

definition classify_spec :: "jsstring \<Rightarrow> bucket option" where
  "classify_spec label =
     map_option snd (find (\<lambda>(k, b). includes_str (toLowerCase label) (lit k)) priority)"

fun increment :: "bucket option \<Rightarrow> counts \<Rightarrow> counts" where
  "increment (Some Approved) c = c\<lparr>counts.approved := counts.approved c + 1\<rparr>"
| "increment (Some Pending) c = c\<lparr>counts.pending := counts.pending c + 1\<rparr>"
| "increment (Some UnderReview) c = c\<lparr>counts.review := counts.review c + 1\<rparr>"
| "increment (Some Rejected) c = c\<lparr>counts.rejected := counts.rejected c + 1\<rparr>"
| "increment None c = c"

definition visible :: "counts \<Rightarrow> nat" where
  "visible c = counts.approved c + counts.pending c + counts.review c + counts.rejected c"

text \<open>
  A claim record has a text status: a string, or a value that \<open>||\<close> replaces by the
  empty string (absent, \<open>null\<close>, \<open>false\<close>, \<open>0\<close>). These are exactly the values on which
  line 40 does not raise. \<open>labelOf\<close> is the label that is then classified.
\<close>

definition textStatus :: "jsval \<Rightarrow> bool" where
  "textStatus v = (case v of JStr s \<Rightarrow> True | _ \<Rightarrow> \<not> truthy v)"

definition claimRecord :: "feature \<Rightarrow> bool" where
  "claimRecord f = (case properties f of None \<Rightarrow> False | Some p \<Rightarrow> textStatus (status p))"

definition labelOf :: "feature \<Rightarrow> jsstring" where
  "labelOf f =
     (case properties f of
        None \<Rightarrow> []
      | Some p \<Rightarrow> (case js_or (status p) (JStr []) of JStr s \<Rightarrow> s | _ \<Rightarrow> []))"

text \<open>The records of a batch that match none of the four keywords.\<close>

definition unclassifiedCount :: "feature list \<Rightarrow> nat" where
  "unclassifiedCount B = length (filter (\<lambda>f. classify_spec (labelOf f) = None) B)"










text \<open>
  Rounding to nearest on a grid of representable numbers: \<open>y\<close> is in the grid and no
  element of the grid is closer to \<open>x\<close>. It is used only to check that the ranges of
  the alert figures do not depend on the products being exact.
\<close>

definition nearestOn :: "rat set \<Rightarrow> rat \<Rightarrow> rat \<Rightarrow> bool" where
  "nearestOn G x y = (y \<in> G \<and> (\<forall>g\<in>G. \<bar>y - x\<bar> \<le> \<bar>g - x\<bar>))"

section \<open>Example inputs\<close>

definition claim :: "string \<Rightarrow> jsval \<Rightarrow> jsval \<Rightarrow> feature" where
  "claim s fam ar =
     \<lparr>properties = Some \<lparr>status = JStr (lit s), claimant_families = fam, area_hectares = ar\<rparr>\<rparr>"

definition samplePage :: dom where
  "samplePage =
     \<lparr>approved_count = Some (lit ''234''), pending_count = Some (lit ''156''),
      review_count = Some (lit ''43''), rejected_count = Some (lit ''12''),
      last_update = Some (lit ''Updated 9:00:00 AM''),
      coverage = Some (lit ''Coverage: 4 States | 445 Active Claims''),
      console = []\<rparr>"

definition mixedBatch :: "feature list" where
  "mixedBatch =
     [claim ''Approved'' JUndefined (JNum (Fin (3 / 2))),
      claim ''Unknown'' (JNum (Fin 4)) JNull]"


definition scenarioBatch :: "feature list" where
  "scenarioBatch =
     [claim ''Approved'' (JNum (Fin 10)) (JNum (Fin (3 / 2))),
      claim ''Pending Review'' (JNum (Fin 5)) (JNum (Fin (9 / 4))),
      claim ''Under Review'' (JNum (Fin 0)) (JNum (Fin 0)),
      claim ''Rejected'' (JNum (Fin 2)) (JNum (Fin (3 / 4)))]"


definition zeroCounters :: "jsstring list" where
  "zeroCounters = [lit ''0'', lit ''0'', lit ''0'', lit ''0'']"

definition sampleCounters :: "jsstring list" where
  "sampleCounters = [lit ''234'', lit ''156'', lit ''43'', lit ''12'']"

section \<open>Lemmas about the model\<close>

lemma includes_str_sublist: "includes_str s n \<longleftrightarrow> sublist n s"
  by (induction s) (auto simp: sublist_Cons_right)

lemma sublist_skip: "sublist n ys \<Longrightarrow> sublist n (x @ ys)"
  by (metis sublist_append_leftI sublist_order.order.trans)

lemma sublist_here: "sublist (x @ y) (x @ y @ rest)"
  using sublist_append_rightI [of "x @ y" rest] by simp

lemma sublist_here3: "sublist (x @ y @ z) (x @ y @ z @ rest)"
  using sublist_append_rightI [of "x @ y @ z" rest] by simp

lemma lit_append: "lit (a @ b) = lit a @ lit b"
  by (simp add: lit_def)

subsection \<open>The loop\<close>

text \<open>
  On a record with a text status the callback never raises; it adds the two numeric
  fields and increments the counter that the specification's classification names.
\<close>

lemma callback_text:
  assumes "properties f = Some p" and "js_or (status p) (JStr []) = JStr s"
  shows "callback t f =
     Inr (t\<lparr>totalFamilies := js_add (totalFamilies t) (js_or (claimant_families p) (JNum (Fin 0))),
            totalArea := js_add (totalArea t) (js_or (area_hectares p) (JNum (Fin 0))),
            counts := increment (classify_spec s) (counts t)\<rparr>)"
  using assms by (simp add: callback_def classify_spec_def priority_def Let_def)

lemma visible_increment:
  "visible (increment b c) = visible c + (if b = None then 0 else 1)"
  by (cases "(b, c)" rule: increment.cases) (simp_all add: visible_def)

lemma claimRecord_label:
  assumes "claimRecord f"
  shows "\<exists>p. properties f = Some p \<and> js_or (status p) (JStr []) = JStr (labelOf f)"
  using assms
  by (auto simp: claimRecord_def textStatus_def labelOf_def js_or_def
           split: option.splits jsval.splits)

lemma callback_claimRecord:
  assumes "claimRecord f"
  shows "\<exists>t'. callback t f = Inr t' \<and>
           counts t' = increment (classify_spec (labelOf f)) (counts t)"
proof -
  from claimRecord_label [OF assms] obtain p where
    p: "properties f = Some p" "js_or (status p) (JStr []) = JStr (labelOf f)" by blast
  show ?thesis by (simp add: callback_text [OF p])
qed

lemma forEach_visible:
  "\<forall>f\<in>set B. claimRecord f \<Longrightarrow>
   \<exists>t'. forEach B t = Inr t' \<and>
     visible (counts t') + unclassifiedCount B = visible (counts t) + length B"
proof (induction B arbitrary: t)
  case Nil
  then show ?case by (simp add: unclassifiedCount_def)
next
  case (Cons f B)
  from Cons.prems have "claimRecord f" by simp
  from callback_claimRecord [OF this, of t] obtain t1 where
    t1: "callback t f = Inr t1" "counts t1 = increment (classify_spec (labelOf f)) (counts t)"
    by blast
  from Cons.prems have "\<forall>f\<in>set B. claimRecord f" by simp
  from Cons.IH [OF this, of t1] obtain t' where
    t': "forEach B t1 = Inr t'"
        "visible (counts t') + unclassifiedCount B = visible (counts t1) + length B"
    by blast
  have "visible (counts t1) =
          visible (counts t) + (if classify_spec (labelOf f) = None then 0 else 1)"
    by (simp add: t1(2) visible_increment)
  with t' t1(1) show ?case
    by (auto simp: unclassifiedCount_def)
qed

lemma pending_review_bucket:
  assumes "toLowerCase s = lit ''pending review''"
  shows "classify_spec s = Some Pending"
  by (simp add: classify_spec_def priority_def assms) (simp add: lit_def)





subsection \<open>Sums on which binary64 addition is exact\<close>








subsection \<open>Counters written by the dashboard are read back by \<open>parseInt\<close>\<close>

lemma digit_cases:
  "d < 10 \<Longrightarrow>
   d = 0 \<or> d = 1 \<or> d = 2 \<or> d = 3 \<or> d = 4 \<or> d = 5 \<or> d = 6 \<or> d = 7 \<or> d = 8 \<or> d = (9::nat)"
  by arith

lemma digit_unit:
  assumes "d < 10"
  shows "isDigit (of_nat (48 + d))" and "digitValue (of_nat (48 + d)) = d"
  using digit_cases [OF assms]
  by (auto simp: isDigit_def digitValue_def)

lemma digitsOf_chars: "\<forall>c\<in>set (digitsOf n). isDigit c"
proof (induction n rule: digitsOf.induct)
  case (1 n)
  show ?case
  proof (cases "n < 10")
    case True
    then show ?thesis
      by (subst digitsOf.simps) (simp add: digit_unit del: of_nat_add)
  next
    case False
    have "n mod 10 < 10" by simp
    from digit_unit(1) [OF this] "1" [OF False] False show ?thesis
      by (subst digitsOf.simps) (simp del: of_nat_add)
  qed
qed

lemma digitsOf_nonempty: "digitsOf n \<noteq> []"
  by (subst digitsOf.simps) simp

lemma isDigit_value: "isDigit c \<Longrightarrow> digitValue c < 10"
  by (auto simp: isDigit_def digitValue_def word_le_nat_alt)

lemma isDigit_not_space: "isDigit c \<Longrightarrow> \<not> isWhiteSpace c"
  by (auto simp: isDigit_def isWhiteSpace_def word_le_nat_alt)

lemma digitsOf_value: "foldl (\<lambda>a c. a * 10 + digitValue c) 0 (digitsOf n) = n"
proof (induction n rule: digitsOf.induct)
  case (1 n)
  show ?case
  proof (cases "n < 10")
    case True
    then show ?thesis
      by (subst digitsOf.simps) (simp add: digit_unit del: of_nat_add)
  next
    case False
    have "n mod 10 < 10" by simp
    from digit_unit(2) [OF this] "1" [OF False] False show ?thesis
      by (subst digitsOf.simps) (simp del: of_nat_add)
  qed
qed

lemma parseInt_digitsOf: "parseInt (digitsOf n) = Fin (of_nat n)"
proof -
  obtain c cs where ds: "digitsOf n = c # cs"
    using digitsOf_nonempty [of n] by (cases "digitsOf n") auto
  have all: "\<forall>x\<in>set (c # cs). isDigit x"
    using digitsOf_chars [of n] by (simp add: ds)
  then have c: "isDigit c" by simp
  have s: "dropWhile isWhiteSpace (c # cs) = c # cs"
    using isDigit_not_space [OF c] by simp
  have m: "\<not> prefix (lit ''-'') (c # cs)" "\<not> prefix (lit ''+'') (c # cs)"
    using c by (auto simp: lit_def isDigit_def)
  have x: "\<not> prefix (lit ''0x'') (c # cs)" "\<not> prefix (lit ''0X'') (c # cs)"
    using all by (auto simp: lit_def isDigit_def prefix_def)
  have t: "takeWhile (\<lambda>c. digitValue c < 10) (c # cs) = c # cs"
    using all by (simp add: isDigit_value)
  have "parseInt (c # cs) = Fin (of_int (int (foldl (\<lambda>a c. a * 10 + digitValue c) 0 (c # cs))))"
    unfolding parseInt_def s Let_def using m x t by simp
  then show ?thesis
    using digitsOf_value [of n] by (simp add: ds)
qed

lemma numberToString_nat: "numberToString (Fin (of_nat n)) = digitsOf n"
  by simp

lemma rendered_counters:
  assumes "els = [digitsOf (counts.approved c), digitsOf (counts.pending c),
                  digitsOf (counts.review c), digitsOf (counts.rejected c)]"
  shows "reportData.approved (generateReportData els r1 r2 r3) = Fin (of_nat (counts.approved c))"
    and "totalClaims (generateReportData els r1 r2 r3) = Fin (of_nat (visible c))"
  by (simp_all add: assms generateReportData_def counterText_def digitsOf_nonempty
        parseInt_digitsOf visible_def)

lemma default_counters:
  "sampleCounters =
     [digitsOf (counts.approved defaultCounts), digitsOf (counts.pending defaultCounts),
      digitsOf (counts.review defaultCounts), digitsOf (counts.rejected defaultCounts)]"
  "digitsOf (counts.approved defaultCounts) = lit ''234''"
  "digitsOf (visible defaultCounts) = lit ''445''"
  by code_simp+

subsection \<open>The report text\<close>

lemma report_total_line:
  "includes_str (createReportContent now rd)
     (lit ''Total FRA Claims Monitored: '' @ numberToString (totalClaims rd))"
  unfolding includes_str_sublist createReportContent_def concat.simps
  by (rule sublist_here | rule sublist_skip)+

lemma report_approved_line:
  "includes_str (createReportContent now rd)
     (lit ''Approved Claims: '' @ numberToString (reportData.approved rd))"
proof -
  have sp: "lit '' Approved Claims: '' = lit '' '' @ lit ''Approved Claims: ''"
    by (simp add: lit_def)
  show ?thesis
    unfolding includes_str_sublist createReportContent_def concat.simps sp append_assoc
    by (rule sublist_here | rule sublist_skip)+
qed

lemma report_pending_line:
  "includes_str (createReportContent now rd)
     (lit ''Pending Review: '' @ numberToString (reportData.pending rd))"
proof -
  have sp: "lit '' Pending Review: '' = lit '' '' @ lit ''Pending Review: ''"
    by (simp add: lit_def)
  show ?thesis
    unfolding includes_str_sublist createReportContent_def concat.simps sp append_assoc
    by (rule sublist_here | rule sublist_skip)+
qed

lemma report_review_line:
  "includes_str (createReportContent now rd)
     (lit ''Under Review: '' @ numberToString (reportData.review rd))"
proof -
  have sp: "lit '' Under Review: '' = lit '' '' @ lit ''Under Review: ''"
    by (simp add: lit_def)
  show ?thesis
    unfolding includes_str_sublist createReportContent_def concat.simps sp append_assoc
    by (rule sublist_here | rule sublist_skip)+
qed

lemma report_rejected_line:
  "includes_str (createReportContent now rd)
     (lit ''Rejected Claims: '' @ numberToString (reportData.rejected rd))"
proof -
  have sp: "lit '' Rejected Claims: '' = lit '' '' @ lit ''Rejected Claims: ''"
    by (simp add: lit_def)
  show ?thesis
    unfolding includes_str_sublist createReportContent_def concat.simps sp append_assoc
    by (rule sublist_here | rule sublist_skip)+
qed

lemma report_average_line:
  "includes_str (createReportContent now rd)
     (lit ''Average Claim Size: '' @ toFixed1 (num_div (Fin 24156) (totalClaims rd)) @
      lit '' hectares'')"
proof -
  have sp: "lit '' Average Claim Size: '' = lit '' '' @ lit ''Average Claim Size: ''"
    by (simp add: lit_def)
  show ?thesis
    unfolding includes_str_sublist createReportContent_def concat.simps sp append_assoc
    by (rule sublist_here3 | rule sublist_skip)+
qed

text \<open>The clock string can be read back from the report: nothing else in it varies.\<close>

lemma report_clock_inj:
  "createReportContent t1 rd = createReportContent t2 rd \<longleftrightarrow> t1 = t2"
  by (simp add: createReportContent_def)

text \<open>
  The alert figures are computed from products that the machine rounds to binary64.
  For a random value below 1, that is at most \<open>1 - 2^-53\<close>, the exact product stays
  so far below \<open>k\<close> that rounding to nearest cannot reach \<open>k\<close>, on any grid holding 0
  and a point \<open>p\<close> just below \<open>k\<close>; for binary64 these points are \<open>8 - 2^-50\<close>,
  \<open>5 - 2^-50\<close> and \<open>12 - 2^-49\<close>. So the floors are the same kind of integers as
  with exact products.
\<close>

lemma rounded_product_range:
  assumes r: "0 \<le> r" "r \<le> 1 - 1 / 2 ^ 53" and k: "0 < k"
    and y: "nearestOn G (r * k) y"
    and G: "0 \<in> G" "p \<in> G" and p: "p < k" "k - p < 2 * k / 2 ^ 53"
  shows "0 \<le> y \<and> y < k"
proof -
  have x0: "0 \<le> r * k" using r(1) k by simp
  have "r * k \<le> (1 - 1 / 2 ^ 53) * k"
    using r(2) k by (rule_tac mult_right_mono) simp_all
  then have xk: "r * k \<le> k - k / 2 ^ 53" by (simp add: algebra_simps)
  from y G have d0: "\<bar>y - r * k\<bar> \<le> \<bar>0 - r * k\<bar>" and dp: "\<bar>y - r * k\<bar> \<le> \<bar>p - r * k\<bar>"
    by (auto simp: nearestOn_def)
  from d0 x0 have lo: "0 \<le> y" by simp
  have "y < k"
  proof (cases "r * k \<le> p")
    case True
    with dp have "y \<le> p" by simp
    with p(1) show ?thesis by simp
  next
    case False
    with dp have "y \<le> 2 * (r * k) - p" by simp
    with xk p(2) show ?thesis by (simp add: field_simps)
  qed
  with lo show ?thesis by simp
qed

lemma floor_below:
  fixes y :: rat
  assumes "0 \<le> y \<and> y < of_int k"
  shows "0 \<le> \<lfloor>y\<rfloor> \<and> \<lfloor>y\<rfloor> \<le> k - 1"
  using assms by (simp add: floor_less_iff)

lemma rounded_products_in_range:
  assumes r: "0 \<le> r" "r \<le> 1 - 1 / 2 ^ 53"
    and G: "0 \<in> G" "8 - 1 / 2 ^ 50 \<in> G" "5 - 1 / 2 ^ 50 \<in> G" "12 - 1 / 2 ^ 49 \<in> G"
    and y: "nearestOn G (r * 8) y8" "nearestOn G (r * 5) y5" "nearestOn G (r * 12) y12"
  shows "0 \<le> \<lfloor>y8\<rfloor> \<and> \<lfloor>y8\<rfloor> \<le> 7"
    and "0 \<le> \<lfloor>y5\<rfloor> \<and> \<lfloor>y5\<rfloor> \<le> 4"
    and "0 \<le> \<lfloor>y12\<rfloor> \<and> \<lfloor>y12\<rfloor> \<le> 11"
proof -
  show "0 \<le> \<lfloor>y8\<rfloor> \<and> \<lfloor>y8\<rfloor> \<le> 7"
    using floor_below [of y8 8] rounded_product_range [OF r _ y(1) G(1,2)] by simp
  show "0 \<le> \<lfloor>y5\<rfloor> \<and> \<lfloor>y5\<rfloor> \<le> 4"
    using floor_below [of y5 5] rounded_product_range [OF r _ y(2) G(1,3)] by simp
  show "0 \<le> \<lfloor>y12\<rfloor> \<and> \<lfloor>y12\<rfloor> \<le> 11"
    using floor_below [of y12 12] rounded_product_range [OF r _ y(3) G(1,4)] by simp
qed

lemma floor_scaled_range:
  fixes r :: rat
  assumes "0 \<le> r" and "r < 1" and "0 < k"
  shows "0 \<le> \<lfloor>r * of_int k\<rfloor> \<and> \<lfloor>r * of_int k\<rfloor> \<le> k - 1"
proof -
  have "0 \<le> r * of_int k" using assms by simp
  then have lo: "0 \<le> \<lfloor>r * of_int k\<rfloor>" by simp
  have "r * of_int k < of_int k" using assms by simp
  then have "\<lfloor>r * of_int k\<rfloor> < k" by (simp add: floor_less_iff)
  with lo show ?thesis by simp
qed

section \<open>The claims\<close>

text \<open>
  C1. For every batch of claim records (each with a text status), aggregation succeeds
  and the four category counts plus the number of unclassified records add up to the
  batch length, which is the total feature count: every record is tallied in at most
  one visible counter, and a record matching no keyword is counted in the total only.
\<close>

theorem counts_partition_batch:
  assumes "\<forall>f\<in>set B. claimRecord f"
  shows "\<exists>t. aggregate B = Inr t \<and>
           counts.approved (counts t) + counts.pending (counts t) + counts.review (counts t) +
           counts.rejected (counts t) + unclassifiedCount B = length B"
proof -
  from forEach_visible [OF assms, of initial] obtain t where
    t: "forEach B initial = Inr t"
       "visible (counts t) + unclassifiedCount B = visible (counts initial) + length B"
    by blast
  have "visible (counts initial) = 0" by (simp add: initial_def visible_def)
  with t show ?thesis by (simp add: aggregate_def visible_def)
qed

text \<open>
  C1 at a batch of one approved and one unknown record: one visible tally, one
  unclassified record, two features.
\<close>

theorem counts_partition_batch_witness:
  "list_all claimRecord mixedBatch \<and> unclassifiedCount mixedBatch = 1 \<and>
   length mixedBatch = 2 \<and>
   (\<exists>t. aggregate mixedBatch = Inr t \<and>
      counts.approved (counts t) + counts.pending (counts t) + counts.review (counts t) +
      counts.rejected (counts t) + 1 = 2)"
proof -
  have h: "\<forall>f\<in>set mixedBatch. claimRecord f"
    by (simp add: mixedBatch_def claim_def claimRecord_def textStatus_def)
  have u: "unclassifiedCount mixedBatch = 1"
    by code_simp
  have l: "length mixedBatch = 2"
    by (simp add: mixedBatch_def)
  from counts_partition_batch [OF h] show ?thesis
    unfolding u l using h by (simp add: list_all_iff)
qed

text \<open>
  C2. For every claim record, the callback increments exactly the counter of the first
  keyword, in the order approved, pending, review, reject, that occurs in the
  lower-cased status label (none when no keyword occurs). In particular a status that
  is "pending review" in any letter case is classified as Pending: the pending counter
  goes up by one and the review counter is left as it was.
\<close>

theorem classification_first_match:
  assumes "claimRecord f"
  shows "\<exists>t'. callback t f = Inr t' \<and>
           counts t' = increment (classify_spec (labelOf f)) (counts t) \<and>
           (toLowerCase (labelOf f) = lit ''pending review'' \<longrightarrow>
              classify_spec (labelOf f) = Some Pending \<and>
              counts t' = (counts t)\<lparr>counts.pending := counts.pending (counts t) + 1\<rparr> \<and>
              counts.review (counts t') = counts.review (counts t))"
proof -
  from callback_claimRecord [OF assms, of t] obtain t' where
    t': "callback t f = Inr t'"
        "counts t' = increment (classify_spec (labelOf f)) (counts t)"
    by blast
  then show ?thesis
    by (auto simp: pending_review_bucket)
qed

text \<open>C2 at the record with status "Pending Review", from the all-zero tally.\<close>

theorem classification_first_match_witness:
  "claimRecord (claim ''Pending Review'' (JNum (Fin 5)) (JNum (Fin (9 / 4)))) \<and>
   toLowerCase (labelOf (claim ''Pending Review'' (JNum (Fin 5)) (JNum (Fin (9 / 4))))) =
     lit ''pending review'' \<and>
   (\<exists>t'. callback initial (claim ''Pending Review'' (JNum (Fin 5)) (JNum (Fin (9 / 4)))) = Inr t' \<and>
      counts t' = \<lparr>counts.approved = 0, pending = 1, review = 0, rejected = 0\<rparr>)"
proof -
  have c: "claimRecord (claim ''Pending Review'' (JNum (Fin 5)) (JNum (Fin (9 / 4))))"
    by (simp add: claim_def claimRecord_def textStatus_def)
  have l: "toLowerCase (labelOf (claim ''Pending Review'' (JNum (Fin 5)) (JNum (Fin (9 / 4))))) =
     lit ''pending review''"
    by (simp add: claim_def labelOf_def js_or_def toLowerCase_def lit_def lowerUnit_def)
  from classification_first_match [OF c, of initial] l c
  show ?thesis
    by (auto simp: initial_def)
qed




text \<open>
  C4 at the failing input. With the four counters at "0" the total is 0, the division
  \<open>24156 / 0\<close> does not raise but gives \<open>Infinity\<close>, and the report reads
  "Average Claim Size: Infinity hectares": a value derived from the division by zero,
  not a fallback string.
\<close>

theorem zero_total_average_is_Infinity:
  "totalClaims (generateReportData zeroCounters 0 0 0) = Fin 0 \<and>
   toFixed1 (num_div (Fin 24156) (totalClaims (generateReportData zeroCounters 0 0 0))) =
     lit ''Infinity'' \<and>
   includes_str (reportContent zeroCounters 0 0 0 (lit ''1/1/2025, 10:00:00 AM''))
     (lit ''Average Claim Size: Infinity hectares'')"
proof -
  have z: "totalClaims (generateReportData zeroCounters 0 0 0) = Fin 0"
    by code_simp
  have f: "toFixed1 (num_div (Fin 24156) (Fin 0)) = lit ''Infinity''"
    by simp
  have "lit ''Average Claim Size: Infinity hectares'' =
        lit ''Average Claim Size: '' @ lit ''Infinity'' @ lit '' hectares''"
    by (simp add: lit_def)
  with report_average_line
    [of "lit ''1/1/2025, 10:00:00 AM''" "generateReportData zeroCounters 0 0 0"]
  show ?thesis
    by (simp add: z f reportContent_def)
qed

text \<open>
  C5. For every page and alert figures, with \<open>rd\<close> the report data read from the page,
  the report contains "Approved Claims: " followed by the approved count, and likewise
  the other three category lines and the total-claims line; and the total rendered
  there is the sum of the four rendered category values. When the page shows the
  counters as the dashboard wrote them from a tally \<open>c\<close>, the approved line shows the
  approved count of \<open>c\<close> and the total line the sum of its four counts.
\<close>

theorem report_lines_and_total:
  assumes "rd = generateReportData els r1 r2 r3"
  shows "includes_str (reportContent els r1 r2 r3 now)
           (lit ''Approved Claims: '' @ numberToString (reportData.approved rd)) \<and>
         includes_str (reportContent els r1 r2 r3 now)
           (lit ''Pending Review: '' @ numberToString (reportData.pending rd)) \<and>
         includes_str (reportContent els r1 r2 r3 now)
           (lit ''Under Review: '' @ numberToString (reportData.review rd)) \<and>
         includes_str (reportContent els r1 r2 r3 now)
           (lit ''Rejected Claims: '' @ numberToString (reportData.rejected rd)) \<and>
         includes_str (reportContent els r1 r2 r3 now)
           (lit ''Total FRA Claims Monitored: '' @ numberToString (totalClaims rd)) \<and>
         totalClaims rd =
           num_add (num_add (num_add (reportData.approved rd) (reportData.pending rd))
             (reportData.review rd)) (reportData.rejected rd) \<and>
         (els = [digitsOf (counts.approved c), digitsOf (counts.pending c),
                 digitsOf (counts.review c), digitsOf (counts.rejected c)] \<longrightarrow>
            includes_str (reportContent els r1 r2 r3 now)
              (lit ''Approved Claims: '' @ digitsOf (counts.approved c)) \<and>
            includes_str (reportContent els r1 r2 r3 now)
              (lit ''Total FRA Claims Monitored: '' @ digitsOf (visible c)))"
proof -
  have e: "reportContent els r1 r2 r3 now = createReportContent now rd"
    by (simp add: reportContent_def assms)
  have t: "totalClaims rd =
      num_add (num_add (num_add (reportData.approved rd) (reportData.pending rd))
        (reportData.review rd)) (reportData.rejected rd)"
    by (simp add: assms generateReportData_def)
  have w: "includes_str (createReportContent now rd)
              (lit ''Approved Claims: '' @ digitsOf (counts.approved c)) \<and>
           includes_str (createReportContent now rd)
              (lit ''Total FRA Claims Monitored: '' @ digitsOf (visible c))"
    if els: "els = [digitsOf (counts.approved c), digitsOf (counts.pending c),
                    digitsOf (counts.review c), digitsOf (counts.rejected c)]"
  proof -
    from rendered_counters [OF els, of r1 r2 r3]
    have "reportData.approved rd = Fin (of_nat (counts.approved c))"
      and "totalClaims rd = Fin (of_nat (visible c))"
      by (simp_all only: assms)
    with report_approved_line [of now rd] report_total_line [of now rd]
    show ?thesis by (simp only: numberToString_nat simp_thms)
  qed
  show ?thesis
    unfolding e
    by (intro conjI impI report_approved_line report_pending_line report_review_line
          report_rejected_line report_total_line t)
       (simp_all only: w)
qed

text \<open>
  C5 at the counters 234, 156, 43 and 12, which are the dashboard's default counts as
  it writes them: the report holds "Approved Claims: 234" and
  "Total FRA Claims Monitored: 445".
\<close>

theorem report_lines_and_total_witness:
  "sampleCounters =
     [digitsOf (counts.approved defaultCounts), digitsOf (counts.pending defaultCounts),
      digitsOf (counts.review defaultCounts), digitsOf (counts.rejected defaultCounts)] \<and>
   includes_str (reportContent sampleCounters (1 / 2) (99 / 100) 0 (lit ''1/1/2025, 10:00:00 AM''))
     (lit ''Approved Claims: 234'') \<and>
   includes_str (reportContent sampleCounters (1 / 2) (99 / 100) 0 (lit ''1/1/2025, 10:00:00 AM''))
     (lit ''Total FRA Claims Monitored: 445'')"
  using report_lines_and_total
    [OF refl, of sampleCounters "1 / 2" "99 / 100" 0 "lit ''1/1/2025, 10:00:00 AM''"
      defaultCounts]
    default_counters(1)
  unfolding default_counters(2,3) lit_append [symmetric]
  by simp

text \<open>
  C6, as the code has it. The report embeds the clock reading
  \<open>new Date().toLocaleString()\<close> in its "Generated on:" line. Two exports from the same
  page and the same alert figures are equal character for character exactly when the
  two clock readings are equal.
\<close>

theorem report_same_iff_same_clock:
  "reportContent els r1 r2 r3 now1 = reportContent els r1 r2 r3 now2 \<longleftrightarrow> now1 = now2"
  by (simp add: reportContent_def report_clock_inj)

text \<open>
  C6 as stated fails: the same page and the same alert figures, exported one second
  apart, give two different documents.
\<close>

theorem report_differs_with_clock:
  "reportContent sampleCounters (1 / 2) (99 / 100) 0 (lit ''1/1/2025, 10:00:00 AM'') \<noteq>
   reportContent sampleCounters (1 / 2) (99 / 100) 0 (lit ''1/1/2025, 10:00:01 AM'')"
  by (simp add: reportContent_def report_clock_inj) (simp add: lit_def)

text \<open>
  C7. For every three values of the random source in [0,1), the generated alert
  figures are integers in their ranges: deforestation alerts in [3,10], high-risk areas
  in [2,6] and NDVI violations in [5,16].
\<close>

theorem alert_figures_in_range:
  assumes "0 \<le> r1" "r1 < 1" "0 \<le> r2" "r2 < 1" "0 \<le> r3" "r3 < 1"
  shows "\<exists>a h v :: int.
           deforestationAlerts (generateReportData els r1 r2 r3) = Fin (of_int a) \<and>
           3 \<le> a \<and> a \<le> 10 \<and>
           highRiskAreas (generateReportData els r1 r2 r3) = Fin (of_int h) \<and>
           2 \<le> h \<and> h \<le> 6 \<and>
           ndviViolations (generateReportData els r1 r2 r3) = Fin (of_int v) \<and>
           5 \<le> v \<and> v \<le> 16"
proof -
  from floor_scaled_range [OF assms(1,2), of 8]
  have a: "0 \<le> \<lfloor>r1 * 8\<rfloor> \<and> \<lfloor>r1 * 8\<rfloor> \<le> 7" by simp
  from floor_scaled_range [OF assms(3,4), of 5]
  have h: "0 \<le> \<lfloor>r2 * 5\<rfloor> \<and> \<lfloor>r2 * 5\<rfloor> \<le> 4" by simp
  from floor_scaled_range [OF assms(5,6), of 12]
  have v: "0 \<le> \<lfloor>r3 * 12\<rfloor> \<and> \<lfloor>r3 * 12\<rfloor> \<le> 11" by simp
  have "deforestationAlerts (generateReportData els r1 r2 r3) = Fin (of_int (\<lfloor>r1 * 8\<rfloor> + 3))"
       "highRiskAreas (generateReportData els r1 r2 r3) = Fin (of_int (\<lfloor>r2 * 5\<rfloor> + 2))"
       "ndviViolations (generateReportData els r1 r2 r3) = Fin (of_int (\<lfloor>r3 * 12\<rfloor> + 5))"
    by (simp_all add: generateReportData_def)
  moreover have "3 \<le> \<lfloor>r1 * 8\<rfloor> + 3 \<and> \<lfloor>r1 * 8\<rfloor> + 3 \<le> 10" using a by simp
  moreover have "2 \<le> \<lfloor>r2 * 5\<rfloor> + 2 \<and> \<lfloor>r2 * 5\<rfloor> + 2 \<le> 6" using h by simp
  moreover have "5 \<le> \<lfloor>r3 * 12\<rfloor> + 5 \<and> \<lfloor>r3 * 12\<rfloor> + 5 \<le> 16" using v by simp
  ultimately show ?thesis by blast
qed

text \<open>C7 at the random values 0.5, 0.99 and 0.\<close>

theorem alert_figures_in_range_witness:
  "(0::rat) \<le> 1 / 2 \<and> (1 / 2 :: rat) < 1 \<and> (0::rat) \<le> 99 / 100 \<and> (99 / 100 :: rat) < 1 \<and>
   (0::rat) \<le> 0 \<and> (0::rat) < 1 \<and>
   (\<exists>a h v :: int.
      deforestationAlerts (generateReportData sampleCounters (1 / 2) (99 / 100) 0) = Fin (of_int a) \<and>
      3 \<le> a \<and> a \<le> 10 \<and>
      highRiskAreas (generateReportData sampleCounters (1 / 2) (99 / 100) 0) = Fin (of_int h) \<and>
      2 \<le> h \<and> h \<le> 6 \<and>
      ndviViolations (generateReportData sampleCounters (1 / 2) (99 / 100) 0) = Fin (of_int v) \<and>
      5 \<le> v \<and> v \<le> 16)"
  using alert_figures_in_range [of "1 / 2" "99 / 100" 0 sampleCounters]
  by simp

text \<open>
  C8. Aggregating the empty batch succeeds and gives the all-zero statistics: the four
  counts, the number of features, the family total and the area total are 0.
  \<open>updateFromData\<close> on the empty batch returns without raising and writes "0" into
  each counter element that exists.
\<close>

theorem empty_batch_all_zero:
  "aggregate [] =
     Inr \<lparr>counts = \<lparr>counts.approved = 0, pending = 0, review = 0, rejected = 0\<rparr>,
          totalFamilies = JNum (Fin 0), totalArea = JNum (Fin 0)\<rparr> \<and>
   length ([] :: feature list) = 0 \<and>
   snd (updateFromData time d []) = Inr () \<and>
   approved_count (fst (updateFromData time d [])) =
     map_option (\<lambda>_. lit ''0'') (approved_count d) \<and>
   pending_count (fst (updateFromData time d [])) =
     map_option (\<lambda>_. lit ''0'') (pending_count d) \<and>
   review_count (fst (updateFromData time d [])) =
     map_option (\<lambda>_. lit ''0'') (review_count d) \<and>
   rejected_count (fst (updateFromData time d [])) =
     map_option (\<lambda>_. lit ''0'') (rejected_count d)"
  by (simp add: aggregate_def initial_def updateFromData_def Let_def updateCountElements_def
        updateLastUpdate_def updateCoverageInfo_def digitsOf.simps lit_def split: option.splits)

text \<open>
  C9. The batch of four records with statuses "Approved", "Pending Review",
  "Under Review" and "Rejected", families 10, 5, 0, 2 and areas 1.5, 2.25, 0, 0.75
  gives one record in each category, 17 families and 4.5 hectares. The accumulators
  hold the raw sums: after two records the area is 3.75, not a rounded 3.8. Rounding
  to one decimal happens only in the log line.
\<close>

theorem scenario_four_records:
  "aggregate scenarioBatch =
     Inr \<lparr>counts = \<lparr>counts.approved = 1, pending = 1, review = 1, rejected = 1\<rparr>,
          totalFamilies = JNum (Fin 17), totalArea = JNum (Fin (9 / 2))\<rparr> \<and>
   forEach (take 2 scenarioBatch) initial =
     Inr \<lparr>counts = \<lparr>counts.approved = 1, pending = 1, review = 0, rejected = 0\<rparr>,
          totalFamilies = JNum (Fin 15), totalArea = JNum (Fin (15 / 4))\<rparr> \<and>
   snd (updateFromData (lit ''10:00:00 AM'') samplePage scenarioBatch) = Inr () \<and>
   console (fst (updateFromData (lit ''10:00:00 AM'') samplePage scenarioBatch)) =
     [[0xD83D, 0xDCCA] @ lit '' Dashboard updated: 4 claims, 17 families, 4.5 hectares'']"
  by code_simp

text \<open>
  C10. When the loaded batch is empty, \<open>loadMultiStateData\<close> does not call
  \<open>updateFromData\<close>: it returns normally and the page is exactly as it was, so the
  counters keep their previous text. A call of \<open>updateFromData\<close> on the empty batch
  would have written "0" into the approved counter.
\<close>

theorem empty_batch_leaves_dashboard:
  "loadMultiStateData time [] a = (a\<lparr>loadedData := []\<rparr>, Inr ()) \<and>
   dashboard (fst (loadMultiStateData time [] a)) = dashboard a \<and>
   approved_count (fst (updateFromData time (dashboard a) [])) =
     map_option (\<lambda>_. lit ''0'') (approved_count (dashboard a))"
  by (simp add: loadMultiStateData_def aggregate_def initial_def updateFromData_def Let_def
        updateCountElements_def updateLastUpdate_def updateCoverageInfo_def digitsOf.simps
        lit_def split: option.splits)

end
